theory Spec2Isabelle
  imports Main
begin

section \<open>Strings\<close>

text \<open>
  JavaScript strings are modelled as \<^typ>\<open>string\<close>: one \<^typ>\<open>char\<close> per code unit
  (text is restricted to code units below 256).  Indices are \<^typ>\<open>int\<close>, because
  \<^verbatim>\<open>String.prototype.slice\<close> gives a meaning to negative and to out-of-range indices:
  a negative index counts from the end, and every index is clamped to \<open>[0, length]\<close>.
\<close>

definition rel_index :: "nat \<Rightarrow> int \<Rightarrow> nat" where
  "rel_index n i = (if i < 0 then nat (max (int n + i) 0) else nat (min i (int n)))"

text \<open>\<^verbatim>\<open>s.slice(b, e)\<close>\<close>

definition slice :: "string \<Rightarrow> int \<Rightarrow> int \<Rightarrow> string" where
  "slice s b e =
     (let from = rel_index (length s) b; to = rel_index (length s) e
      in take (to - from) (drop from s))"

text \<open>\<^verbatim>\<open>s.slice(b)\<close>\<close>

definition slice_from :: "string \<Rightarrow> int \<Rightarrow> string" where
  "slice_from s b = drop (rel_index (length s) b) s"

section \<open>Annotations: \<^verbatim>\<open>preprocessContent\<close>\<close>

text \<open>
  \<^verbatim>\<open>interface IAnnotation { file_name?: string; text: string; start_index: number; end_index: number }\<close>
  An absent \<^verbatim>\<open>file_name\<close> is \<^term>\<open>None\<close>; the field \<^verbatim>\<open>text\<close> is named
  \<open>ann_text\<close> (\<open>text\<close> is a keyword here).  Indices are integral.
\<close>

record IAnnotation =
  file_name :: "string option"
  ann_text :: string
  start_index :: int
  end_index :: int

text \<open>
  \<^verbatim>\<open>annotation.file_name ? `[${annotation.file_name}]` : annotation.text\<close>:
  the test is JavaScript truthiness, so an empty file name counts as absent.
\<close>

definition linkText :: "IAnnotation \<Rightarrow> string" where
  "linkText annotation =
     (case file_name annotation of
        None \<Rightarrow> ann_text annotation
      | Some f \<Rightarrow> if f \<noteq> [] then ''['' @ f @ '']'' else ann_text annotation)"

text \<open>The body of the \<^verbatim>\<open>forEach\<close> callback: one splice of \<^verbatim>\<open>content\<close>.\<close>

definition splice :: "string \<Rightarrow> IAnnotation \<Rightarrow> string" where
  "splice content annotation =
     slice content 0 (start_index annotation) @ linkText annotation
       @ slice_from content (end_index annotation)"

text \<open>
  \<^verbatim>\<open>annotations?: IAnnotation[]\<close>: \<^term>\<open>None\<close> is \<^verbatim>\<open>undefined\<close>.  The callback runs over
  \<^verbatim>\<open>annotations.slice().reverse()\<close> from its first element to its last.
\<close>

definition preprocessContent :: "string \<Rightarrow> IAnnotation list option \<Rightarrow> string" where
  "preprocessContent content annotations =
     (case annotations of
        None \<Rightarrow> content
      | Some as \<Rightarrow> foldl splice content (rev as))"

subsection \<open>What the specification asks of the resolver\<close>

text \<open>
  The specification's reading, kept apart from the code: the result is the original
  content in which the ranges are replaced from left to right, every stretch between two
  ranges being copied as it is.  The label is a parameter, to state both the
  specification's label and the code's.
\<close>

fun replace_ranges :: "(IAnnotation \<Rightarrow> string) \<Rightarrow> nat \<Rightarrow> string \<Rightarrow> IAnnotation list \<Rightarrow> string" where
  "replace_ranges label pos s [] = drop pos s"
| "replace_ranges label pos s (a # as) =
     take (nat (start_index a) - pos) (drop pos s) @ label a
       @ replace_ranges label (nat (end_index a)) s as"

text \<open>The specification's display label: the file name if present, else the raw text.\<close>

definition displayLabel :: "IAnnotation \<Rightarrow> string" where
  "displayLabel a = (case file_name a of None \<Rightarrow> ann_text a | Some f \<Rightarrow> f)"

text \<open>
  Ranges ascending by start index, pairwise non-overlapping, each a range of a content
  string of length \<open>n\<close>, none starting before \<open>lo\<close>.
\<close>

fun ranges_ok :: "int \<Rightarrow> nat \<Rightarrow> IAnnotation list \<Rightarrow> bool" where
  "ranges_ok lo n [] = True"
| "ranges_ok lo n (a # as) =
     (lo \<le> start_index a \<and> start_index a \<le> end_index a \<and> end_index a \<le> int n
      \<and> ranges_ok (end_index a) n as)"

section \<open>The transcript and the component state of \<^verbatim>\<open>AgentPreview\<close>\<close>

text \<open>
  \<^verbatim>\<open>IChatItem\<close>.  An id is \<^verbatim>\<open>`user-${Date.now()}`\<close>, \<^verbatim>\<open>`assistant-${Date.now()}`\<close>,
  \<^verbatim>\<open>`error-${Date.now()}`\<close> or \<^verbatim>\<open>crypto.randomUUID()\<close>; the number stands for the clock
  reading or the random value, and a counter of the state supplies it.  The field
  \<^verbatim>\<open>more.time\<close> (a time stamp no function reads) is left out.  An absent \<^verbatim>\<open>role\<close> is
  \<^term>\<open>None\<close>; an absent \<^verbatim>\<open>isAnswer\<close> is \<^term>\<open>False\<close>.
\<close>

datatype chat_id = UserId nat | AssistantId nat | ErrorId nat | Uuid nat

record IChatItem =
  item_id :: chat_id
  content :: string
  role :: "string option"
  isAnswer :: bool

text \<open>The body of a request: \<^verbatim>\<open>JSON.stringify({ query: t })\<close> or \<^verbatim>\<open>JSON.stringify({ message: t })\<close>.\<close>

datatype body = QueryBody string | MessageBody string

datatype request = GET string | POST string body

text \<open>
  Chat items are JavaScript objects, shared by reference: the item that
  \<^verbatim>\<open>createAssistantMessageDiv\<close> returns is the very object it put into the list, and
  \<^verbatim>\<open>appendAssistantMessage\<close> assigns to its \<^verbatim>\<open>content\<close>.  So the state holds an object
  store, a reference being an index into it, and \<^verbatim>\<open>messageList\<close> is a list of references.
  State setters take effect in program order.  \<open>timers\<close> are the interval timers the
  browser is running (ids are positive, as \<^verbatim>\<open>setInterval\<close> returns them), and
  \<open>agentThinkingInterval\<close> is \<^verbatim>\<open>window.agentThinkingInterval\<close>.  \<open>requests\<close> records every
  \<^verbatim>\<open>fetch\<close> in order, \<open>console_errors\<close> the first argument of every \<^verbatim>\<open>console.error\<close>,
  \<open>scrolls\<close> every scheduled \<^verbatim>\<open>scrollIntoView\<close>.
\<close>

record state =
  store :: "IChatItem list"
  messageList :: "nat list"
  isResponding :: bool
  isOrchestrationMode :: bool
  orchestrationInitialized :: bool
  showAgentThinking :: bool
  isPollingThinking :: bool
  agentThinkingInterval :: "nat option"
  timers :: "nat list"
  next_timer :: nat
  fresh :: nat
  requests :: "request list"
  console_errors :: "string list"
  scrolls :: "chat_id list"

text \<open>What the rendering layer sees: the items the list refers to.\<close>

definition transcript :: "state \<Rightarrow> IChatItem list" where
  "transcript s = map (\<lambda>r. store s ! r) (messageList s)"

text \<open>\<^verbatim>\<open>setMessageList((prev) => [...prev, item])\<close> for a newly built object \<open>item\<close>.\<close>

definition pushItem :: "IChatItem \<Rightarrow> state \<Rightarrow> nat \<times> state" where
  "pushItem item s =
     (length (store s),
      s\<lparr>store := store s @ [item], messageList := messageList s @ [length (store s)]\<rparr>)"

definition console_error :: "string \<Rightarrow> state \<Rightarrow> state" where
  "console_error m s = s\<lparr>console_errors := console_errors s @ [m]\<rparr>"

definition createAssistantMessageDiv :: "state \<Rightarrow> nat \<times> state" where
  "createAssistantMessageDiv s =
     pushItem \<lparr>item_id = Uuid (fresh s), content = [], role = None, isAnswer = True\<rparr>
       (s\<lparr>fresh := fresh s + 1\<rparr>)"

text \<open>
  \<^verbatim>\<open>chatItem.content = htmlContent\<close> writes to the object; then
  \<^verbatim>\<open>setMessageList((prev) => [...prev.slice(0, -1), { ...chatItem }])\<close> puts a fresh copy of
  it in place of the last reference.  \<open>chatItem\<close> is never null at a call, and nothing in
  the \<^verbatim>\<open>try\<close> block throws for string content.
\<close>

definition appendAssistantMessage ::
  "nat \<Rightarrow> string \<Rightarrow> bool \<Rightarrow> IAnnotation list option \<Rightarrow> state \<Rightarrow> state" where
  "appendAssistantMessage chatItem accumulatedContent isStreaming annotations s =
     (let htmlContent = preprocessContent accumulatedContent annotations;
          st1 = (store s)[chatItem := (store s ! chatItem)\<lparr>content := htmlContent\<rparr>];
          s1 = s\<lparr>store := st1 @ [st1 ! chatItem],
                 messageList := butlast (messageList s) @ [length st1]\<rparr>
      in if \<not> isStreaming then s1\<lparr>scrolls := scrolls s1 @ [item_id (st1 ! chatItem)]\<rparr>
         else s1)"

definition clearAssistantMessage :: "nat \<Rightarrow> state \<Rightarrow> state" where
  "clearAssistantMessage chatItem s =
     s\<lparr>store := (store s)[chatItem := (store s ! chatItem)\<lparr>content := []\<rparr>]\<rparr>"

section \<open>The thinking poller\<close>

definition startAgentThinkingPolling :: "state \<Rightarrow> state" where
  "startAgentThinkingPolling s =
     (if showAgentThinking s \<and> isOrchestrationMode s \<and> \<not> isPollingThinking s
      then s\<lparr>isPollingThinking := True,
             timers := timers s @ [next_timer s],
             agentThinkingInterval := Some (next_timer s),
             next_timer := next_timer s + 1\<rparr>
      else s)"

definition stopAgentThinkingPolling :: "state \<Rightarrow> state" where
  "stopAgentThinkingPolling s =
     (let s1 = s\<lparr>isPollingThinking := False\<rparr>
      in case agentThinkingInterval s1 of
           None \<Rightarrow> s1
         | Some t \<Rightarrow> s1\<lparr>timers := removeAll t (timers s1), agentThinkingInterval := None\<rparr>)"

definition stopRespondingAndPolling :: "state \<Rightarrow> state" where
  "stopRespondingAndPolling s = stopAgentThinkingPolling (s\<lparr>isResponding := False\<rparr>)"

section \<open>The stream decoder: \<^verbatim>\<open>handleMessages\<close>\<close>

text \<open>
  A parsed event, the \<^verbatim>\<open>data\<close> of the source.  \<open>ev_error\<close> is \<^term>\<open>None\<close> when
  \<^verbatim>\<open>data.error\<close> is absent or falsy, and \<open>Some m\<close> when it is truthy, \<open>m\<close> being its
  \<^verbatim>\<open>message\<close> if it has one.  \<^verbatim>\<open>data.content\<close> is a string; \<^verbatim>\<open>data.annotations\<close> may be
  absent.  \<^verbatim>\<open>JSON.parse\<close> is the parameter \<open>parse\<close> of the decoder, \<^term>\<open>None\<close> where it
  throws.
\<close>

record sse_event =
  ev_error :: "string option option"
  ev_type :: "string option"
  ev_content :: string
  ev_annotations :: "IAnnotation list option"

text \<open>The variables of \<^verbatim>\<open>handleMessages\<close> that the event handler reads and writes.\<close>

record stream_vars =
  chatItem :: "nat option"
  accumulatedContent :: string
  isStreaming :: bool
  annotations :: "IAnnotation list option"

definition init_vars :: stream_vars where
  "init_vars = \<lparr>chatItem = None, accumulatedContent = [], isStreaming = True,
                 annotations = Some []\<rparr>"

text \<open>How the body of the inner loop leaves: falls through, \<^verbatim>\<open>break\<close>, or \<^verbatim>\<open>return\<close>.\<close>

datatype control = Continue | Break | Return

text \<open>\<^verbatim>\<open>if (!chatItem) { chatItem = createAssistantMessageDiv(); }\<close>\<close>

definition ensureChatItem :: "state \<times> stream_vars \<Rightarrow> nat \<times> state \<times> stream_vars" where
  "ensureChatItem = (\<lambda>(s, v).
     case chatItem v of
       Some c \<Rightarrow> (c, s, v)
     | None \<Rightarrow> (let (c, s1) = createAssistantMessageDiv s in (c, s1, v\<lparr>chatItem := Some c\<rparr>)))"

text \<open>\<^verbatim>\<open>data.error.message || "An error occurred."\<close>\<close>

definition error_message :: "string option \<Rightarrow> string" where
  "error_message m = (case m of Some t \<Rightarrow> if t \<noteq> [] then t else ''An error occurred.''
                      | None \<Rightarrow> ''An error occurred.'')"

text \<open>The handling of one parsed event (the source from \<^verbatim>\<open>if (data.error)\<close> on).\<close>

definition handleData :: "sse_event \<Rightarrow> state \<times> stream_vars \<Rightarrow> control \<times> state \<times> stream_vars" where
  "handleData data = (\<lambda>(s, v).
     case ev_error data of
       Some m \<Rightarrow>
         (let (c, s1, v1) = ensureChatItem (s, v);
              s2 = stopRespondingAndPolling s1
          in (Return, appendAssistantMessage c (error_message m) False None s2, v1))
     | None \<Rightarrow>
         if ev_type data = Some ''stream_end'' then (Break, stopRespondingAndPolling s, v)
         else if ev_type data = Some ''thread_run'' then (Continue, s, v)
         else
           (let (c, s1, v1) = ensureChatItem (s, v);
                (s2, v2) =
                  (if ev_type data = Some ''completed_message''
                   then (stopRespondingAndPolling (clearAssistantMessage c s1),
                         v1\<lparr>accumulatedContent := ev_content data,
                            annotations := ev_annotations data,
                            isStreaming := False\<rparr>)
                   else (s1, v1\<lparr>accumulatedContent := accumulatedContent v1 @ ev_content data\<rparr>))
            in (Continue,
                appendAssistantMessage c (accumulatedContent v2) (isStreaming v2)
                  (annotations v2) s2,
                v2)))"

text \<open>
  \<^verbatim>\<open>String.prototype.trim\<close> removes white space and line terminators at both ends;
  below 256 these are the code units 9 to 13, 32 and 160.
\<close>

definition is_space :: "char \<Rightarrow> bool" where
  "is_space c = (c \<in> set [CHR 0x09, CHR 0x0A, CHR 0x0B, CHR 0x0C, CHR 0x0D, CHR 0x20, CHR 0xA0])"

definition trim :: "string \<Rightarrow> string" where
  "trim s = rev (dropWhile is_space (rev (dropWhile is_space s)))"

text \<open>\<^verbatim>\<open>buffer.indexOf("\n")\<close>, \<^term>\<open>None\<close> for \<open>-1\<close>.\<close>

definition indexOf_nl :: "string \<Rightarrow> nat option" where
  "indexOf_nl s = (if CHR 0x0A \<in> set s then Some (length (takeWhile (\<lambda>c. c \<noteq> CHR 0x0A) s))
                   else None)"

definition startsWith :: "string \<Rightarrow> string \<Rightarrow> bool" where
  "startsWith s p = (take (length p) s = p)"

text \<open>
  The inner loop \<^verbatim>\<open>while (boundary !== -1)\<close> on the buffer.  A line that does not start
  with \<^verbatim>\<open>data: \<close> is passed over; a payload that does not parse is logged and passed over
  (\<^verbatim>\<open>continue\<close>); \<^verbatim>\<open>break\<close> and \<^verbatim>\<open>return\<close> leave the loop with the rest of the buffer.
\<close>

function processBuffer ::
  "(string \<Rightarrow> sse_event option) \<Rightarrow> string \<Rightarrow> state \<times> stream_vars
     \<Rightarrow> control \<times> string \<times> state \<times> stream_vars" where
  "processBuffer parse buffer sv =
     (case indexOf_nl buffer of
        None \<Rightarrow> (Continue, buffer, sv)
      | Some boundary \<Rightarrow>
          if startsWith (trim (slice buffer 0 (int boundary))) ''data: ''
          then
            (case parse (slice_from (trim (slice buffer 0 (int boundary))) 6) of
               None \<Rightarrow>
                 processBuffer parse (slice_from buffer (int boundary + 1))
                   (console_error ''[ChatClient] Failed to parse JSON:'' (fst sv), snd sv)
             | Some data \<Rightarrow>
                 if fst (handleData data sv) = Continue
                 then processBuffer parse (slice_from buffer (int boundary + 1))
                        (snd (handleData data sv))
                 else (fst (handleData data sv), slice_from buffer (int boundary + 1),
                       snd (handleData data sv)))
          else processBuffer parse (slice_from buffer (int boundary + 1)) sv)"
  by pat_completeness auto
termination
proof -
  have tw: "length (takeWhile (\<lambda>c. c \<noteq> CHR 0x0A) s) < length s"
    if "CHR 0x0A \<in> set s" for s
    using that by (induction s) auto
  have less: "b < length s" if "indexOf_nl s = Some b" for s b
    using that tw [of s] by (simp add: indexOf_nl_def split: if_splits)
  show ?thesis
  proof (relation "measure (\<lambda>(parse, buffer, sv). length buffer)")
    show "wf (measure (\<lambda>(parse, buffer, sv). length buffer))" by simp
  qed (simp_all add: slice_from_def rel_index_def, (drule less, linarith)+)
qed

text \<open>
  The outer loop \<^verbatim>\<open>while (true)\<close> of \<^verbatim>\<open>readStream\<close>.  The stream is the list of its text
  chunks, each \<^verbatim>\<open>decoder.decode(value, { stream: true })\<close>; the empty list is \<^verbatim>\<open>done\<close>.
  A \<^verbatim>\<open>break\<close> of the inner loop leaves the inner loop only, so the outer loop reads on;
  \<^verbatim>\<open>return\<close> leaves \<^verbatim>\<open>readStream\<close>.
\<close>

fun readStream ::
  "(string \<Rightarrow> sse_event option) \<Rightarrow> string list \<Rightarrow> string \<times> state \<times> stream_vars
     \<Rightarrow> string \<times> state \<times> stream_vars" where
  "readStream parse [] bsv = bsv"
| "readStream parse (textChunk # rest) (buffer, sv) =
     (case processBuffer parse (buffer @ textChunk) sv of
        (Return, r) \<Rightarrow> r
      | (_, r) \<Rightarrow> readStream parse rest r)"

definition handleMessages :: "(string \<Rightarrow> sse_event option) \<Rightarrow> string list \<Rightarrow> state \<Rightarrow> state" where
  "handleMessages parse stream s = fst (snd (readStream parse stream ([], s, init_vars)))"

section \<open>Sending a message: \<^verbatim>\<open>onSend\<close>\<close>

text \<open>
  What \<^verbatim>\<open>fetch('/orchestration/status')\<close> gives: it rejects, or it resolves to a response
  with its \<^verbatim>\<open>ok\<close> flag and what \<^verbatim>\<open>response.json()\<close> resolves to (\<^term>\<open>None\<close> where
  that rejects).  \<open>sd_status\<close> is \<^verbatim>\<open>statusData.status\<close>, \<open>sd_info_status\<close> is
  \<^verbatim>\<open>statusData.orchestration_info?.status\<close>.
\<close>

record status_data =
  sd_status :: string
  sd_info_status :: "string option"

datatype status_reply = StatusRejected | StatusResponse bool "status_data option"

text \<open>
  The variable \<^verbatim>\<open>useOrchestration\<close> as \<^verbatim>\<open>onSend\<close> computes it before it chooses the
  endpoint, with the state after the status check.
\<close>

definition useOrchestration :: "status_reply \<Rightarrow> state \<Rightarrow> bool \<times> state" where
  "useOrchestration statusReply s =
     (if isOrchestrationMode s \<and> \<not> orchestrationInitialized s
      then
        (let s1 = s\<lparr>requests := requests s @ [GET ''/orchestration/status'']\<rparr>
         in case statusReply of
              StatusRejected \<Rightarrow>
                (False, console_error ''[ChatClient] Error checking orchestration status:'' s1)
            | StatusResponse ok d \<Rightarrow>
                if ok then
                  (case d of
                     None \<Rightarrow>
                       (False,
                        console_error ''[ChatClient] Error checking orchestration status:'' s1)
                   | Some statusData \<Rightarrow>
                       if sd_status statusData = ''success''
                          \<and> sd_info_status statusData = Some ''initialized''
                       then (True, s1\<lparr>orchestrationInitialized := True\<rparr>)
                       else (False, s1))
                else (False, s1))
      else (isOrchestrationMode s \<and> orchestrationInitialized s, s))"

text \<open>
  The JSON of the orchestration endpoint: \<open>or_result\<close> is
  \<^verbatim>\<open>jsonResponse.orchestration_result.result\<close>, \<^term>\<open>None\<close> when
  \<^verbatim>\<open>jsonResponse.orchestration_result\<close> is absent; \<open>or_error\<close> is \<^verbatim>\<open>jsonResponse.error\<close>.
\<close>

record orch_response =
  or_status :: string
  or_result :: "string option"
  or_error :: "string option"

text \<open>
  What \<^verbatim>\<open>fetch(endpoint, ...)\<close> gives: it rejects (\<open>True\<close> for an \<^verbatim>\<open>AbortError\<close>), or it
  resolves to a response: its \<^verbatim>\<open>ok\<close> flag, what \<^verbatim>\<open>response.json()\<close> resolves to
  (\<^term>\<open>None\<close> where it rejects) and \<^verbatim>\<open>response.body\<close> as the list of its text chunks
  (\<^term>\<open>None\<close> for \<^verbatim>\<open>null\<close>).
\<close>

record chat_response =
  resp_ok :: bool
  resp_json :: "orch_response option"
  resp_body :: "string list option"

datatype chat_reply = ChatRejected bool | ChatResponse chat_response

text \<open>The \<^verbatim>\<open>catch\<close> block of \<^verbatim>\<open>onSend\<close>.\<close>

definition onSend_catch :: "bool \<Rightarrow> state \<Rightarrow> state" where
  "onSend_catch abort s =
     (let s1 = stopRespondingAndPolling s
      in if abort then s1 else console_error ''[ChatClient] Fetch failed:'' s1)"

text \<open>\<^verbatim>\<open>jsonResponse.error || "An error occurred during orchestration"\<close>\<close>

definition orchestration_error :: "string option \<Rightarrow> string" where
  "orchestration_error e =
     (case e of Some t \<Rightarrow> if t \<noteq> [] then t else ''An error occurred during orchestration''
      | None \<Rightarrow> ''An error occurred during orchestration'')"

text \<open>The item that the orchestration branch appends for the JSON it received.\<close>

definition orchestration_item :: "orch_response \<Rightarrow> nat \<Rightarrow> IChatItem" where
  "orchestration_item jsonResponse n =
     (case or_result jsonResponse of
        Some result \<Rightarrow>
          if or_status jsonResponse = ''success''
          then \<lparr>item_id = AssistantId n, content = result, role = Some ''assistant'',
                isAnswer = True\<rparr>
          else \<lparr>item_id = ErrorId n, content = orchestration_error (or_error jsonResponse),
                role = Some ''assistant'', isAnswer = True\<rparr>
      | None \<Rightarrow>
          \<lparr>item_id = ErrorId n, content = orchestration_error (or_error jsonResponse),
           role = Some ''assistant'', isAnswer = True\<rparr>)"

text \<open>The object \<^verbatim>\<open>userMessage\<close> that \<^verbatim>\<open>onSend\<close> builds and appends.\<close>

definition userMessage :: "string \<Rightarrow> state \<Rightarrow> IChatItem" where
  "userMessage message s =
     \<lparr>item_id = UserId (fresh s), content = message, role = Some ''user'', isAnswer = False\<rparr>"

definition onSend ::
  "(string \<Rightarrow> sse_event option) \<Rightarrow> status_reply \<Rightarrow> chat_reply \<Rightarrow> string \<Rightarrow> state \<Rightarrow> state" where
  "onSend parse statusReply chatReply message s =
     (let s0 = snd (pushItem (userMessage message s) (s\<lparr>fresh := fresh s + 1\<rparr>));
          (useOrch, s1) = useOrchestration statusReply s0;
          endpoint = (if useOrch then ''/orchestration/chat'' else ''/chat'');
          postData = (if useOrch then QueryBody message else MessageBody message);
          s2 = s1\<lparr>isResponding := True\<rparr>;
          s3 = (if useOrch \<and> showAgentThinking s2 then startAgentThinkingPolling s2 else s2);
          s4 = s3\<lparr>requests := requests s3 @ [POST endpoint postData]\<rparr>
      in case chatReply of
           ChatRejected abort \<Rightarrow> onSend_catch abort s4
         | ChatResponse response \<Rightarrow>
             if \<not> resp_ok response then console_error ''[ChatClient] Response not OK:'' s4
             else if useOrch then
               (case resp_json response of
                  None \<Rightarrow> onSend_catch False s4
                | Some jsonResponse \<Rightarrow>
                    stopRespondingAndPolling
                      (snd (pushItem (orchestration_item jsonResponse (fresh s4))
                              (s4\<lparr>fresh := fresh s4 + 1\<rparr>))))
             else
               (case resp_body response of
                  None \<Rightarrow> onSend_catch False s4
                | Some stream \<Rightarrow> handleMessages parse stream s4))"

section \<open>Settings handlers of \<^verbatim>\<open>AgentPreview\<close>\<close>

definition fetchOrchestrationStatus :: "status_reply \<Rightarrow> state \<Rightarrow> state" where
  "fetchOrchestrationStatus statusReply s =
     (let s1 = s\<lparr>requests := requests s @ [GET ''/orchestration/status'']\<rparr>
      in case statusReply of
           StatusRejected \<Rightarrow> console_error ''Error fetching orchestration status:'' s1
         | StatusResponse ok d \<Rightarrow>
             if ok then
               (case d of
                  None \<Rightarrow> console_error ''Error fetching orchestration status:'' s1
                | Some data \<Rightarrow>
                    if sd_status data = ''success''
                    then s1\<lparr>orchestrationInitialized :=
                              (sd_info_status data = Some ''initialized'')\<rparr>
                    else s1)
             else s1)"

definition handleOrchestrationModeChange :: "status_reply \<Rightarrow> bool \<Rightarrow> state \<Rightarrow> state" where
  "handleOrchestrationModeChange statusReply enabled s =
     (let s1 = s\<lparr>isOrchestrationMode := enabled\<rparr>
      in if \<not> enabled then s1\<lparr>orchestrationInitialized := False\<rparr>
         else fetchOrchestrationStatus statusReply s1)"

definition handleShowAgentThinkingChange :: "bool \<Rightarrow> state \<Rightarrow> state" where
  "handleShowAgentThinkingChange enabled s = s\<lparr>showAgentThinking := enabled\<rparr>"

text \<open>
  \<^verbatim>\<open>useEffect(() => { if (isOrchestrationMode) fetchOrchestrationStatus(); }, [isOrchestrationMode])\<close>,
  run after the render of \<open>cur\<close> that follows the render of \<open>prev\<close>.
\<close>

definition orchestrationModeEffect :: "status_reply \<Rightarrow> state \<Rightarrow> state \<Rightarrow> state" where
  "orchestrationModeEffect statusReply prev cur =
     (if isOrchestrationMode cur \<noteq> isOrchestrationMode prev \<and> isOrchestrationMode cur
      then fetchOrchestrationStatus statusReply cur else cur)"

text \<open>The component as it is mounted: the initial values of its \<^verbatim>\<open>useState\<close> hooks.\<close>

definition init_state :: state where
  "init_state =
     \<lparr>store = [], messageList = [], isResponding = False, isOrchestrationMode = False,
      orchestrationInitialized = False, showAgentThinking = False, isPollingThinking = False,
      agentThinkingInterval = None, timers = [], next_timer = 1, fresh = 0, requests = [],
      console_errors = [], scrolls = []\<rparr>"

section \<open>\<^verbatim>\<open>OrchestrationPanel\<close>: \<^verbatim>\<open>processOrchestrationQuery\<close>\<close>

text \<open>
  The state of the panel that \<^verbatim>\<open>processOrchestrationQuery\<close> reads and writes.
  \<open>orchestrationStatus\<close> is \<^term>\<open>None\<close> for \<^verbatim>\<open>null\<close> and otherwise holds
  \<^verbatim>\<open>orchestrationStatus.orchestration_info.status\<close>.
\<close>

record panel =
  panel_message :: string
  orchestrationStatus :: "string option"
  orchestrationResult :: string
  isProcessing :: bool
  panel_error :: string
  panel_success :: string
  panel_requests :: "request list"

text \<open>
  What the panel's \<^verbatim>\<open>fetch\<close> gives: a rejection (of \<^verbatim>\<open>fetch\<close> or of \<^verbatim>\<open>response.json()\<close>)
  with the error as it prints; an \<^verbatim>\<open>ok\<close> response with the result and the number of
  agents used; or another response with its \<^verbatim>\<open>detail\<close>.
\<close>

datatype panel_reply = PanelRejected string | PanelOk string nat | PanelNotOk string

text \<open>A number inside a template literal: its decimal digits.\<close>

function show_nat :: "nat \<Rightarrow> string" where
  "show_nat n =
     (if n < 10 then [char_of (48 + n)] else show_nat (n div 10) @ [char_of (48 + n mod 10)])"
  by pat_completeness auto
termination
  by (relation "measure (\<lambda>n. n)") auto

definition processOrchestrationQuery :: "panel_reply \<Rightarrow> panel \<Rightarrow> panel" where
  "processOrchestrationQuery reply p =
     (if trim (panel_message p) = [] then p\<lparr>panel_error := ''Please enter a message''\<rparr>
      else if orchestrationStatus p \<noteq> Some ''initialized''
      then p\<lparr>panel_error := ''Orchestration is not initialized. Please initialize it first.''\<rparr>
      else
        (let p1 = p\<lparr>isProcessing := True, panel_error := [], orchestrationResult := [],
                     panel_requests := panel_requests p
                       @ [POST ''/orchestration/chat'' (MessageBody (panel_message p))]\<rparr>;
             p2 = (case reply of
                     PanelOk result n \<Rightarrow>
                       p1\<lparr>orchestrationResult := result,
                          panel_success := ''Query processed using '' @ show_nat n @ '' agents''\<rparr>
                   | PanelNotOk detail \<Rightarrow>
                       p1\<lparr>panel_error := ''Failed to process query: '' @ detail\<rparr>
                   | PanelRejected err \<Rightarrow>
                       p1\<lparr>panel_error := ''Error processing query: '' @ err\<rparr>)
         in p2\<lparr>isProcessing := False\<rparr>))"

section \<open>Render closures\<close>

text \<open>
  A function of the component is a closure of the render that created it: it reads the
  state variables as that render saw them, while every setter writes the component's
  state.  \<open>render\<close> holds what \<^verbatim>\<open>onSend\<close> and \<^verbatim>\<open>startAgentThinkingPolling\<close> read of a
  render; \<open>snapshot\<close> is the render of a state.  The definitions above are the functions
  of the render of the very state they run on.
\<close>

record render =
  r_isOrchestrationMode :: bool
  r_orchestrationInitialized :: bool
  r_showAgentThinking :: bool
  r_isPollingThinking :: bool

definition snapshot :: "state \<Rightarrow> render" where
  "snapshot s =
     \<lparr>r_isOrchestrationMode = isOrchestrationMode s,
      r_orchestrationInitialized = orchestrationInitialized s,
      r_showAgentThinking = showAgentThinking s,
      r_isPollingThinking = isPollingThinking s\<rparr>"

text \<open>
  \<^verbatim>\<open>useMemo(() => ({ messageList, isResponding, onSend }), [messageList, isResponding])\<close>:
  the chat view sends through the \<^verbatim>\<open>onSend\<close> of \<^verbatim>\<open>chatContext\<close>, and a render replaces
  that \<^verbatim>\<open>onSend\<close> only when \<^verbatim>\<open>messageList\<close> or \<^verbatim>\<open>isResponding\<close> differs from the render
  before.  \<open>held\<close> is the render whose \<^verbatim>\<open>onSend\<close> the context holds, \<open>prev\<close> and \<open>cur\<close> are
  the states of two renders in a row.  (Every \<^verbatim>\<open>setMessageList\<close> modelled here changes
  the list, so comparing the lists compares the arrays.)
\<close>

definition chatContext :: "render \<Rightarrow> state \<Rightarrow> state \<Rightarrow> render" where
  "chatContext held prev cur =
     (if messageList cur = messageList prev \<and> isResponding cur = isResponding prev
      then held else snapshot cur)"

text \<open>\<^verbatim>\<open>startAgentThinkingPolling\<close> of the render \<open>r\<close>: the guard reads the render.\<close>

definition startAgentThinkingPolling_of :: "render \<Rightarrow> state \<Rightarrow> state" where
  "startAgentThinkingPolling_of r s =
     (if r_showAgentThinking r \<and> r_isOrchestrationMode r \<and> \<not> r_isPollingThinking r
      then s\<lparr>isPollingThinking := True,
             timers := timers s @ [next_timer s],
             agentThinkingInterval := Some (next_timer s),
             next_timer := next_timer s + 1\<rparr>
      else s)"

text \<open>
  \<^verbatim>\<open>onSend\<close> of the render \<open>r\<close>, cut where it awaits a \<^verbatim>\<open>fetch\<close>; other work of the
  component can run at each cut.  \<open>onSend_begin\<close> runs to the first \<^verbatim>\<open>await\<close>: it appends
  the user turn and, when the render saw orchestration on and not initialized, calls
  \<^verbatim>\<open>fetch('/orchestration/status')\<close>.
\<close>

definition onSend_begin :: "render \<Rightarrow> string \<Rightarrow> state \<Rightarrow> state" where
  "onSend_begin r message s =
     (let s0 = snd (pushItem (userMessage message s) (s\<lparr>fresh := fresh s + 1\<rparr>))
      in if r_isOrchestrationMode r \<and> \<not> r_orchestrationInitialized r
         then s0\<lparr>requests := requests s0 @ [GET ''/orchestration/status'']\<rparr>
         else s0)"

text \<open>
  \<open>onSend_status\<close> is the block that reads the status reply, if one was asked for: it
  gives \<^verbatim>\<open>useOrchestration\<close> and the state.
\<close>

definition onSend_status :: "render \<Rightarrow> status_reply \<Rightarrow> state \<Rightarrow> bool \<times> state" where
  "onSend_status r statusReply s =
     (if r_isOrchestrationMode r \<and> \<not> r_orchestrationInitialized r
      then
        (case statusReply of
           StatusRejected \<Rightarrow>
             (False, console_error ''[ChatClient] Error checking orchestration status:'' s)
         | StatusResponse ok d \<Rightarrow>
             if ok then
               (case d of
                  None \<Rightarrow>
                    (False,
                     console_error ''[ChatClient] Error checking orchestration status:'' s)
                | Some statusData \<Rightarrow>
                    if sd_status statusData = ''success''
                       \<and> sd_info_status statusData = Some ''initialized''
                    then (True, s\<lparr>orchestrationInitialized := True\<rparr>)
                    else (False, s))
             else (False, s))
      else (r_isOrchestrationMode r \<and> r_orchestrationInitialized r, s))"

text \<open>
  \<open>onSend_dispatch\<close> runs from the status reply to \<^verbatim>\<open>await fetch(endpoint, ...)\<close>: it
  chooses the endpoint, sets \<^verbatim>\<open>isResponding\<close>, starts the poller and posts.  It returns
  \<^verbatim>\<open>useOrchestration\<close> with the state.
\<close>

definition onSend_dispatch :: "render \<Rightarrow> status_reply \<Rightarrow> string \<Rightarrow> state \<Rightarrow> bool \<times> state" where
  "onSend_dispatch r statusReply message s =
     (let (useOrch, s1) = onSend_status r statusReply s;
          endpoint = (if useOrch then ''/orchestration/chat'' else ''/chat'');
          postData = (if useOrch then QueryBody message else MessageBody message);
          s2 = s1\<lparr>isResponding := True\<rparr>;
          s3 = (if useOrch \<and> r_showAgentThinking r then startAgentThinkingPolling_of r s2
                else s2)
      in (useOrch, s3\<lparr>requests := requests s3 @ [POST endpoint postData]\<rparr>))"

text \<open>\<open>onSend_settle\<close> runs from the reply of the chat request to the end.\<close>

definition onSend_settle ::
  "(string \<Rightarrow> sse_event option) \<Rightarrow> bool \<Rightarrow> chat_reply \<Rightarrow> state \<Rightarrow> state" where
  "onSend_settle parse useOrch chatReply s =
     (case chatReply of
        ChatRejected abort \<Rightarrow> onSend_catch abort s
      | ChatResponse response \<Rightarrow>
          if \<not> resp_ok response then console_error ''[ChatClient] Response not OK:'' s
          else if useOrch then
            (case resp_json response of
               None \<Rightarrow> onSend_catch False s
             | Some jsonResponse \<Rightarrow>
                 stopRespondingAndPolling
                   (snd (pushItem (orchestration_item jsonResponse (fresh s))
                           (s\<lparr>fresh := fresh s + 1\<rparr>))))
          else
            (case resp_body response of
               None \<Rightarrow> onSend_catch False s
             | Some stream \<Rightarrow> handleMessages parse stream s))"

text \<open>A send of the render \<open>r\<close> that nothing interrupts.\<close>

definition onSend_of ::
  "(string \<Rightarrow> sse_event option) \<Rightarrow> render \<Rightarrow> status_reply \<Rightarrow> chat_reply \<Rightarrow> string
     \<Rightarrow> state \<Rightarrow> state" where
  "onSend_of parse r statusReply chatReply message s =
     (let (useOrch, s1) = onSend_dispatch r statusReply message (onSend_begin r message s)
      in onSend_settle parse useOrch chatReply s1)"

section \<open>Invariants and example data\<close>

text \<open>Every reference of the list is an object of the store.\<close>

definition refs_ok :: "state \<Rightarrow> bool" where
  "refs_ok s = list_all (\<lambda>r. r < length (store s)) (messageList s)"


text \<open>
  The item that \<^verbatim>\<open>handleMessages\<close> holds, if it holds one, is an object of the store that
  the list does not refer to: the list holds copies of it.
\<close>

definition item_fresh :: "state \<Rightarrow> stream_vars \<Rightarrow> bool" where
  "item_fresh s v =
     (case chatItem v of None \<Rightarrow> True
      | Some c \<Rightarrow> c < length (store s) \<and> c \<notin> set (messageList s))"

text \<open>
  The status endpoint reports an initialized orchestration, as \<^verbatim>\<open>onSend\<close> reads the reply:
  the response is \<^verbatim>\<open>ok\<close>, its JSON has status \<^verbatim>\<open>success\<close> and
  \<^verbatim>\<open>orchestration_info.status\<close> is \<^verbatim>\<open>initialized\<close>.
\<close>

definition reports_initialized :: "status_reply \<Rightarrow> bool" where
  "reports_initialized statusReply =
     (case statusReply of
        StatusRejected \<Rightarrow> False
      | StatusResponse ok d \<Rightarrow>
          ok \<and> (case d of None \<Rightarrow> False
                | Some statusData \<Rightarrow> sd_status statusData = ''success''
                    \<and> sd_info_status statusData = Some ''initialized''))"

text \<open>The requests that post something.\<close>

fun is_POST :: "request \<Rightarrow> bool" where
  "is_POST (POST url b) = True"
| "is_POST (GET url) = False"

text \<open>
  The chat request fails in transport: \<^verbatim>\<open>fetch\<close> rejects, or the response is not
  \<^verbatim>\<open>ok\<close> (its status is not 2xx).
\<close>

definition transport_failure :: "chat_reply \<Rightarrow> bool" where
  "transport_failure chatReply =
     (case chatReply of ChatRejected abort \<Rightarrow> True | ChatResponse response \<Rightarrow> \<not> resp_ok response)"

text \<open>
  Events and payloads of the examples.  \<open>demo_parse\<close> is \<^verbatim>\<open>JSON.parse\<close> on the payloads
  the examples use: on each listed payload it gives the event \<^verbatim>\<open>JSON.parse\<close> gives, and
  the payloads the examples call malformed are not JSON and not listed.
\<close>

definition delta_event :: "string \<Rightarrow> sse_event" where
  "delta_event c =
     \<lparr>ev_error = None, ev_type = Some ''delta'', ev_content = c, ev_annotations = None\<rparr>"

definition completed_event :: "string \<Rightarrow> sse_event" where
  "completed_event c =
     \<lparr>ev_error = None, ev_type = Some ''completed_message'', ev_content = c,
      ev_annotations = None\<rparr>"

definition stream_end_event :: sse_event where
  "stream_end_event =
     \<lparr>ev_error = None, ev_type = Some ''stream_end'', ev_content = [], ev_annotations = None\<rparr>"

definition demo_parse :: "string \<Rightarrow> sse_event option" where
  \<open>demo_parse =
     map_of
       [(''{"type":"delta","content":"Hel"}'', delta_event ''Hel''),
        (''{"type":"delta","content":"lo"}'', delta_event ''lo''),
        (''{"type":"delta","content":"Hi"}'', delta_event ''Hi''),
        (''{"type":"delta","content":" there"}'', delta_event '' there''),
        (''{"type":"delta","content":"late"}'', delta_event ''late''),
        (''{"type":"completed_message","content":"Hello, world"}'',
           completed_event ''Hello, world''),
        (''{"type":"completed_message","content":"first"}'', completed_event ''first''),
        (''{"type":"completed_message","content":"second"}'', completed_event ''second''),
        (''{"type":"stream_end"}'', stream_end_event)]\<close>

text \<open>Replies of the examples.\<close>

definition status_initialized :: status_reply where
  "status_initialized =
     StatusResponse True (Some \<lparr>sd_status = ''success'', sd_info_status = Some ''initialized''\<rparr>)"

definition status_uninitialized :: status_reply where
  "status_uninitialized =
     StatusResponse True
       (Some \<lparr>sd_status = ''success'', sd_info_status = Some ''uninitialized''\<rparr>)"

definition orchestration_done :: chat_reply where
  "orchestration_done =
     ChatResponse
       \<lparr>resp_ok = True,
        resp_json = Some \<lparr>or_status = ''success'', or_result = Some ''done'', or_error = None\<rparr>,
        resp_body = None\<rparr>"

definition stream_reply :: "string list \<Rightarrow> chat_reply" where
  "stream_reply chunks = ChatResponse \<lparr>resp_ok = True, resp_json = None, resp_body = Some chunks\<rparr>"

text \<open>The line feed that ends a record.\<close>

definition nl :: string where
  "nl = [CHR 0x0A]"

section \<open>Two sessions\<close>

text \<open>
  The first session.  On the freshly mounted component the user switches orchestration
  on; the handler and then the effect ask for the status, and the server answers that
  nothing is initialized (the replies are read in the order asked).  Neither
  \<^verbatim>\<open>messageList\<close> nor \<^verbatim>\<open>isResponding\<close> changes, so \<open>held_stale\<close>, the render whose
  \<^verbatim>\<open>onSend\<close> the chat context holds after these renders, is the render of the mount.
\<close>

definition mode_switched :: state where
  "mode_switched = handleOrchestrationModeChange status_uninitialized True init_state"

definition switched_on :: state where
  "switched_on = orchestrationModeEffect status_uninitialized init_state mode_switched"

definition held_stale :: render where
  "held_stale =
     chatContext (chatContext (snapshot init_state) init_state mode_switched)
       mode_switched switched_on"

text \<open>A stream that carries the end marker and nothing else.\<close>

definition end_marker :: string where
  \<open>end_marker = ''data: {"type":"stream_end"}'' @ nl\<close>

text \<open>
  The second session goes on from the first.  The user switches the thinking display
  on and sends \<open>one\<close>; that send runs in the held render, posts to the single-agent
  endpoint and is answered by the end marker.  Its renders renew the chat context:
  \<open>held_one\<close> saw orchestration on, not initialized, the display on and no poller.  The
  user sends \<open>two\<close> and, while its status request is out, \<open>three\<close>: \<open>held_two\<close> is the
  render after \<open>two\<close> has appended its turn.  Then the two status replies arrive, both
  reporting an initialized orchestration, then the two chat replies.
\<close>

definition thinking_on :: state where
  "thinking_on = handleShowAgentThinkingChange True switched_on"

definition one_posted :: "bool \<times> state" where
  "one_posted =
     onSend_dispatch held_stale status_uninitialized ''one''
       (onSend_begin held_stale ''one'' thinking_on)"

definition one_done :: state where
  "one_done = onSend_settle demo_parse (fst one_posted) (stream_reply [end_marker]) (snd one_posted)"

definition held_one :: render where
  "held_one =
     chatContext
       (chatContext (chatContext held_stale switched_on thinking_on) thinking_on (snd one_posted))
       (snd one_posted) one_done"

definition two_begun :: state where
  "two_begun = onSend_begin held_one ''two'' one_done"

definition held_two :: render where
  "held_two = chatContext held_one one_done two_begun"

definition three_begun :: state where
  "three_begun = onSend_begin held_two ''three'' two_begun"

definition two_posted :: "bool \<times> state" where
  "two_posted = onSend_dispatch held_one status_initialized ''two'' three_begun"

definition three_posted :: "bool \<times> state" where
  "three_posted = onSend_dispatch held_two status_initialized ''three'' (snd two_posted)"

definition two_done :: state where
  "two_done = onSend_settle demo_parse (fst two_posted) orchestration_done (snd three_posted)"

definition three_done :: state where
  "three_done = onSend_settle demo_parse (fst three_posted) orchestration_done two_done"

section \<open>Properties of the annotation resolver\<close>

lemma slice_prefix: "0 \<le> i \<Longrightarrow> slice s 0 i = take (nat i) s"
  by (simp add: slice_def rel_index_def Let_def min_def)

lemma slice_from_drop: "0 \<le> i \<Longrightarrow> slice_from s i = drop (nat i) s"
  by (simp add: slice_from_def rel_index_def min_def)

lemma foldl_splice_Cons:
  "foldl splice c (rev (a # as)) = splice (foldl splice c (rev as)) a"
  by simp

lemma foldl_splice_ranges:
  "0 \<le> lo \<Longrightarrow> ranges_ok lo (length c) as \<Longrightarrow>
     foldl splice c (rev as) = take (nat lo) c @ replace_ranges linkText (nat lo) c as"
proof (induction as arbitrary: lo)
  case Nil
  then show ?case by simp
next
  case (Cons a as)
  let ?s = "start_index a" and ?e = "end_index a"
  from Cons.prems have b: "0 \<le> lo" "lo \<le> ?s" "?s \<le> ?e" "?e \<le> int (length c)"
    and r: "ranges_ok ?e (length c) as" by simp_all
  from b have e0: "0 \<le> ?e" and s0: "0 \<le> ?s" by linarith+
  let ?R = "replace_ranges linkText (nat ?e) c as"
  have ih: "foldl splice c (rev as) = take (nat ?e) c @ ?R"
    using Cons.IH [OF e0 r] .
  have len: "length (take (nat ?e) c) = nat ?e" using b by simp
  have pre: "take (nat ?s) (take (nat ?e) c @ ?R) = take (nat ?s) c"
  proof -
    have "nat ?s \<le> nat ?e" using b by simp
    then show ?thesis using len by (simp add: min_absorb2)
  qed
  have post: "drop (nat ?e) (take (nat ?e) c @ ?R) = ?R"
    using len by simp
  have "foldl splice c (rev (a # as)) = take (nat ?s) c @ linkText a @ ?R"
    unfolding foldl_splice_Cons ih splice_def slice_prefix [OF s0] slice_from_drop [OF e0]
      pre post ..
  moreover have "take (nat ?s) c = take (nat lo) c @ take (nat ?s - nat lo) (drop (nat lo) c)"
  proof -
    have "nat ?s = nat lo + (nat ?s - nat lo)" using b by simp
    then show ?thesis by (metis take_add)
  qed
  ultimately show ?case by simp
qed

text \<open>
  Claim C2, as the code has it.  Without annotations the content is returned unchanged.
  The last annotation of the list is applied first, so the list is worked through in
  reverse.  For ranges that are ascending, pairwise non-overlapping and inside the content,
  the result is the content with every range replaced by its link text and every
  character outside the ranges kept; the link text is the file name in square brackets
  when there is a non-empty file name, and the annotation's text otherwise.
\<close>

theorem preprocessContent_replaces_ranges:
  "preprocessContent c None = c
   \<and> preprocessContent c (Some []) = c
   \<and> preprocessContent c (Some (as @ [a])) = preprocessContent (splice c a) (Some as)
   \<and> (ranges_ok 0 (length c) as \<longrightarrow>
        preprocessContent c (Some as) = replace_ranges linkText 0 c as)"
  using foldl_splice_ranges [of 0 c as]
  by (simp add: preprocessContent_def)

theorem preprocessContent_replaces_ranges_witness:
  "ranges_ok 0 (length ''ab[1]cd[2]'')
     [\<lparr>file_name = Some ''x.pdf'', ann_text = ''[1]'', start_index = 2, end_index = 5\<rparr>,
      \<lparr>file_name = None, ann_text = ''(ref)'', start_index = 7, end_index = 10\<rparr>]
   \<and> preprocessContent ''ab[1]cd[2]''
        (Some [\<lparr>file_name = Some ''x.pdf'', ann_text = ''[1]'', start_index = 2, end_index = 5\<rparr>,
               \<lparr>file_name = None, ann_text = ''(ref)'', start_index = 7, end_index = 10\<rparr>])
       = ''ab[x.pdf]cd(ref)''"
  using preprocessContent_replaces_ranges
    [of "''ab[1]cd[2]''"
        "[\<lparr>file_name = Some ''x.pdf'', ann_text = ''[1]'', start_index = 2, end_index = 5\<rparr>,
          \<lparr>file_name = None, ann_text = ''(ref)'', start_index = 7, end_index = 10\<rparr>]"]
  by (simp add: linkText_def)

text \<open>
  Claim C2 as the specification words it takes the bare file name for the label.  For the
  content \<open>abc\<close> and one annotation of the range \<open>[1, 2)\<close> with file name \<open>f\<close> the code
  returns \<open>a[f]c\<close>, where the replacement by the bare file name is \<open>afc\<close>.  It also puts
  no bound on the indices: for the ascending, disjoint ranges \<open>[1, 5)\<close> and \<open>[6, 7)\<close> of
  \<open>abc\<close>, labelled \<open>X\<close> and \<open>Y\<close>, the code returns \<open>aX\<close> and loses the label \<open>Y\<close>.
\<close>

theorem preprocessContent_label_counterexample:
  "ranges_ok 0 (length ''abc'')
     [\<lparr>file_name = Some ''f'', ann_text = ''t'', start_index = 1, end_index = 2\<rparr>]
   \<and> preprocessContent ''abc''
        (Some [\<lparr>file_name = Some ''f'', ann_text = ''t'', start_index = 1, end_index = 2\<rparr>])
       = ''a[f]c''
   \<and> replace_ranges displayLabel 0 ''abc''
        [\<lparr>file_name = Some ''f'', ann_text = ''t'', start_index = 1, end_index = 2\<rparr>]
       = ''afc''
   \<and> preprocessContent ''abc''
        (Some [\<lparr>file_name = None, ann_text = ''X'', start_index = 1, end_index = 5\<rparr>,
               \<lparr>file_name = None, ann_text = ''Y'', start_index = 6, end_index = 7\<rparr>])
       = ''aX''
   \<and> replace_ranges displayLabel 0 ''abc''
        [\<lparr>file_name = None, ann_text = ''X'', start_index = 1, end_index = 5\<rparr>,
         \<lparr>file_name = None, ann_text = ''Y'', start_index = 6, end_index = 7\<rparr>]
       = ''aXY''"
  by (simp add: preprocessContent_def splice_def slice_def slice_from_def rel_index_def
      linkText_def displayLabel_def)

section \<open>Updating the open turn\<close>

lemmas handler_defs = handleData_def ensureChatItem_def createAssistantMessageDiv_def
  pushItem_def appendAssistantMessage_def clearAssistantMessage_def
  stopRespondingAndPolling_def stopAgentThinkingPolling_def Let_def

lemma transcript_butlast:
  "butlast (transcript s) = map (\<lambda>r. store s ! r) (butlast (messageList s))"
  by (simp add: transcript_def map_butlast)

lemma appendAssistantMessage_messageList:
  "messageList (appendAssistantMessage c acc str anns s) =
     butlast (messageList s) @ [length (store s)]"
  by (simp add: appendAssistantMessage_def Let_def)

lemma appendAssistantMessage_store:
  "store (appendAssistantMessage c acc str anns s) =
     (store s)[c := (store s ! c)\<lparr>content := preprocessContent acc anns\<rparr>]
       @ [(store s)[c := (store s ! c)\<lparr>content := preprocessContent acc anns\<rparr>] ! c]"
  by (simp add: appendAssistantMessage_def Let_def)

text \<open>
  Where \<^verbatim>\<open>handleMessages\<close> updates the turn, the item is the last element of the list or
  not in the list at all, and every event keeps it so.
\<close>

lemma ensureChatItem_not_before_last:
  assumes "refs_ok s" and "item_fresh s v"
  shows "case ensureChatItem (s, v) of (c, s1, v1) \<Rightarrow>
           refs_ok s1 \<and> c < length (store s1) \<and> c \<notin> set (butlast (messageList s1))"
  using assms
  by (auto simp: ensureChatItem_def createAssistantMessageDiv_def pushItem_def refs_ok_def
      item_fresh_def list_all_iff less_Suc_eq
      split: option.splits dest: in_set_butlastD)

lemma handleData_keeps_item_fresh:
  assumes "refs_ok s" and "item_fresh s v"
  shows "refs_ok (fst (snd (handleData data (s, v))))
         \<and> item_fresh (fst (snd (handleData data (s, v)))) (snd (snd (handleData data (s, v))))"
  using assms
  by (auto simp: handler_defs refs_ok_def item_fresh_def list_all_iff less_Suc_eq
      split: option.splits prod.splits dest: in_set_butlastD)

text \<open>
  Claim C10.  \<^verbatim>\<open>appendAssistantMessage\<close> puts a fresh copy of the updated item in place of
  the last reference of the list and keeps every reference before it; in the store it
  writes to the item it is given and to nothing else that existed.  So the last turn shown
  is the updated item, and when the item is not one of the objects the list refers to
  before its last position (it never is: the list holds the item itself only as its last
  element, between \<^verbatim>\<open>createAssistantMessageDiv\<close> and the first update), all turns before
  the last are unchanged.
\<close>

theorem appendAssistantMessage_frame:
  "messageList (appendAssistantMessage c acc str anns s)
     = butlast (messageList s) @ [length (store s)]
   \<and> (\<forall>r. r < length (store s) \<and> r \<noteq> c \<longrightarrow>
         store (appendAssistantMessage c acc str anns s) ! r = store s ! r)
   \<and> (c < length (store s) \<longrightarrow>
         last (transcript (appendAssistantMessage c acc str anns s))
           = (store s ! c)\<lparr>content := preprocessContent acc anns\<rparr>)
   \<and> (refs_ok s \<and> c \<notin> set (butlast (messageList s)) \<longrightarrow>
         butlast (transcript (appendAssistantMessage c acc str anns s))
           = butlast (transcript s))"
proof (intro conjI allI impI)
  let ?s' = "appendAssistantMessage c acc str anns s"
  show "messageList ?s' = butlast (messageList s) @ [length (store s)]"
    by (rule appendAssistantMessage_messageList)
  show "store ?s' ! r = store s ! r" if "r < length (store s) \<and> r \<noteq> c" for r
    using that by (simp add: appendAssistantMessage_store nth_append)
  show "last (transcript ?s') = (store s ! c)\<lparr>content := preprocessContent acc anns\<rparr>"
    if "c < length (store s)"
    using that
    by (simp add: transcript_def appendAssistantMessage_messageList
        appendAssistantMessage_store nth_append)
  show "butlast (transcript ?s') = butlast (transcript s)"
    if h: "refs_ok s \<and> c \<notin> set (butlast (messageList s))"
  proof -
    have "store ?s' ! r = store s ! r" if "r \<in> set (butlast (messageList s))" for r
    proof -
      from that have "r \<in> set (messageList s)" by (rule in_set_butlastD)
      with h have "r < length (store s)" by (simp add: refs_ok_def list_all_iff)
      moreover from that h have "r \<noteq> c" by auto
      ultimately show ?thesis by (simp add: appendAssistantMessage_store nth_append)
    qed
    then show ?thesis
      by (simp add: transcript_butlast appendAssistantMessage_messageList)
  qed
qed

theorem appendAssistantMessage_frame_witness:
  "refs_ok (snd (createAssistantMessageDiv (snd (pushItem (userMessage ''hi'' init_state) init_state))))
   \<and> (1::nat) < length (store (snd (createAssistantMessageDiv (snd (pushItem (userMessage ''hi'' init_state) init_state)))))
   \<and> 1 \<notin> set (butlast (messageList (snd (createAssistantMessageDiv (snd (pushItem (userMessage ''hi'' init_state) init_state))))))
   \<and> store (appendAssistantMessage 1 ''Hi'' True (Some [])
        (snd (createAssistantMessageDiv (snd (pushItem (userMessage ''hi'' init_state) init_state))))) ! 0
       = store (snd (createAssistantMessageDiv (snd (pushItem (userMessage ''hi'' init_state) init_state)))) ! 0
   \<and> map content (butlast (transcript (appendAssistantMessage 1 ''Hi'' True (Some [])
        (snd (createAssistantMessageDiv (snd (pushItem (userMessage ''hi'' init_state) init_state))))))) = [''hi'']
   \<and> content (last (transcript (appendAssistantMessage 1 ''Hi'' True (Some [])
        (snd (createAssistantMessageDiv (snd (pushItem (userMessage ''hi'' init_state) init_state))))))) = ''Hi''"
proof -
  let ?s = "snd (createAssistantMessageDiv (snd (pushItem (userMessage ''hi'' init_state) init_state)))"
  have h1: "refs_ok ?s" by code_simp
  have h2: "(1::nat) < length (store ?s)" by code_simp
  have h3: "1 \<notin> set (butlast (messageList ?s))" by code_simp
  have t: "map content (butlast (transcript ?s)) = [''hi'']" by code_simp
  have p: "preprocessContent ''Hi'' (Some []) = ''Hi''" by code_simp
  from appendAssistantMessage_frame [of 1 "''Hi''" True "Some []" ?s] h1 h2 h3
  have "last (transcript (appendAssistantMessage 1 ''Hi'' True (Some []) ?s))
          = (store ?s ! 1)\<lparr>content := preprocessContent ''Hi'' (Some [])\<rparr>"
    and "butlast (transcript (appendAssistantMessage 1 ''Hi'' True (Some []) ?s))
          = butlast (transcript ?s)"
    and "\<forall>r. r < length (store ?s) \<and> r \<noteq> 1 \<longrightarrow>
           store (appendAssistantMessage 1 ''Hi'' True (Some []) ?s) ! r = store ?s ! r"
    by blast+
  moreover have "(0::nat) < length (store ?s) \<and> (0::nat) \<noteq> 1" by code_simp
  ultimately have "last (transcript (appendAssistantMessage 1 ''Hi'' True (Some []) ?s))
          = (store ?s ! 1)\<lparr>content := preprocessContent ''Hi'' (Some [])\<rparr>"
    and "butlast (transcript (appendAssistantMessage 1 ''Hi'' True (Some []) ?s))
          = butlast (transcript ?s)"
    and "store (appendAssistantMessage 1 ''Hi'' True (Some []) ?s) ! 0 = store ?s ! 0"
    by blast+
  with h1 h2 h3 t p show ?thesis by simp
qed

section \<open>Events of the stream\<close>




section \<open>Records of the stream\<close>

lemma indexOf_nl_line:
  "CHR 0x0A \<notin> set line \<Longrightarrow> indexOf_nl (line @ nl @ rest) = Some (length line)"
  by (induction line) (auto simp: indexOf_nl_def nl_def)

lemma slice_line: "slice (line @ nl @ rest) 0 (int (length line)) = line"
  by (simp add: slice_def rel_index_def Let_def)

lemma slice_from_line: "slice_from (line @ nl @ rest) (int (length line) + 1) = rest"
proof -
  have "nat (int (length line) + 1) = Suc (length line)" by simp
  then show ?thesis by (simp add: slice_from_def rel_index_def nl_def)
qed

text \<open>
  Claim C7.  A record that starts with the event marker and whose payload does not parse
  is logged with \<^verbatim>\<open>console.error\<close> and passed over: the decoder goes on with the rest of
  the buffer, with the transcript and the accumulated content as they were.  The witness
  is a stream with a malformed record between two \<^verbatim>\<open>completed_message\<close> records: the turn
  ends with the content of the second.
\<close>

theorem malformed_record_skipped:
  assumes "CHR 0x0A \<notin> set line" and "startsWith (trim line) ''data: ''"
    and "parse (slice_from (trim line) 6) = None"
  shows "processBuffer parse (line @ nl @ rest) (s, v)
           = processBuffer parse rest
               (console_error ''[ChatClient] Failed to parse JSON:'' s, v)"
  using assms
  by (subst processBuffer.simps)
     (simp add: indexOf_nl_line slice_line slice_from_line)

theorem malformed_record_skipped_witness:
  \<open>CHR 0x0A \<notin> set ''data: {"type":"completed_message",''
   \<and> startsWith (trim ''data: {"type":"completed_message",'') ''data: ''
   \<and> demo_parse (slice_from (trim ''data: {"type":"completed_message",'') 6) = None
   \<and> processBuffer demo_parse
        (''data: {"type":"completed_message",'' @ nl
           @ ''data: {"type":"completed_message","content":"second"}'' @ nl)
        (init_state, init_vars)
       = processBuffer demo_parse
           (''data: {"type":"completed_message","content":"second"}'' @ nl)
           (console_error ''[ChatClient] Failed to parse JSON:'' init_state, init_vars)
   \<and> map content (transcript (handleMessages demo_parse
         [''data: {"type":"completed_message","content":"first"}'' @ nl,
          ''data: {"type":"completed_message",'' @ nl,
          ''data: {"type":"completed_message","content":"second"}'' @ nl]
         init_state)) = [''second'']
   \<and> console_errors (handleMessages demo_parse
         [''data: {"type":"completed_message","content":"first"}'' @ nl,
          ''data: {"type":"completed_message",'' @ nl,
          ''data: {"type":"completed_message","content":"second"}'' @ nl]
         init_state) = [''[ChatClient] Failed to parse JSON:'']\<close>
proof -
  have h1: \<open>CHR 0x0A \<notin> set ''data: {"type":"completed_message",''\<close> by code_simp
  have h2: \<open>startsWith (trim ''data: {"type":"completed_message",'') ''data: ''\<close>
    by code_simp
  have h3: \<open>demo_parse (slice_from (trim ''data: {"type":"completed_message",'') 6) = None\<close>
    by code_simp
  have st: \<open>map content (transcript (handleMessages demo_parse
         [''data: {"type":"completed_message","content":"first"}'' @ nl,
          ''data: {"type":"completed_message",'' @ nl,
          ''data: {"type":"completed_message","content":"second"}'' @ nl]
         init_state)) = [''second'']\<close>
    by code_simp
  have lg: \<open>console_errors (handleMessages demo_parse
         [''data: {"type":"completed_message","content":"first"}'' @ nl,
          ''data: {"type":"completed_message",'' @ nl,
          ''data: {"type":"completed_message","content":"second"}'' @ nl]
         init_state) = [''[ChatClient] Failed to parse JSON:'']\<close>
    by code_simp
  from malformed_record_skipped
      [of \<open>''data: {"type":"completed_message",''\<close> demo_parse
          \<open>''data: {"type":"completed_message","content":"second"}'' @ nl\<close>
          init_state init_vars, OF h1 h2 h3]
    h1 h2 h3 st lg
  show ?thesis by blast
qed

section \<open>What the decoder leaves alone\<close>

lemma handleData_requests:
  "requests (fst (snd (handleData data (s, v)))) = requests s"
  by (simp add: handler_defs split: option.splits prod.splits)

lemma handleData_orchestrationInitialized:
  "orchestrationInitialized (fst (snd (handleData data (s, v)))) = orchestrationInitialized s"
  by (simp add: handler_defs split: option.splits prod.splits)

lemma processBuffer_preserves:
  assumes h: "\<And>data s v. P s \<Longrightarrow> P (fst (snd (handleData data (s, v))))"
    and l: "\<And>m s. P s \<Longrightarrow> P (console_error m s)"
  shows "P (fst sv) \<Longrightarrow> P (fst (snd (snd (processBuffer parse buffer sv))))"
proof (induction parse buffer sv rule: processBuffer.induct)
  case (1 parse buffer sv)
  have hd: "P (fst (snd (handleData data sv)))" for data
    using h [of "fst sv" data "snd sv"] "1.prems" by simp
  show ?case
  proof (cases "indexOf_nl buffer")
    case None
    then show ?thesis using "1.prems" by (simp add: processBuffer.simps [of parse buffer sv])
  next
    case (Some boundary)
    show ?thesis
    proof (cases "startsWith (trim (slice buffer 0 (int boundary))) ''data: ''")
      case False
      then show ?thesis
        using Some "1.IH"(3) "1.prems" by (simp add: processBuffer.simps [of parse buffer sv])
    next
      case True
      show ?thesis
      proof (cases "parse (slice_from (trim (slice buffer 0 (int boundary))) 6)")
        case None
        then show ?thesis
          using Some True "1.IH"(1) l [OF "1.prems"]
          by (simp add: processBuffer.simps [of parse buffer sv])
      next
        case (Some data)
        then show ?thesis
          using \<open>indexOf_nl buffer = Some boundary\<close> True "1.IH"(2) hd [of data]
          by (simp add: processBuffer.simps [of parse buffer sv])
      qed
    qed
  qed
qed

lemma readStream_preserves:
  assumes h: "\<And>data s v. P s \<Longrightarrow> P (fst (snd (handleData data (s, v))))"
    and l: "\<And>m s. P s \<Longrightarrow> P (console_error m s)"
  shows "P (fst (snd bsv)) \<Longrightarrow> P (fst (snd (readStream parse stream bsv)))"
proof (induction stream arbitrary: bsv)
  case Nil
  then show ?case by simp
next
  case (Cons textChunk rest)
  obtain buffer sv where bsv: "bsv = (buffer, sv)" by (cases bsv)
  obtain c r where pb: "processBuffer parse (buffer @ textChunk) sv = (c, r)"
    by (cases "processBuffer parse (buffer @ textChunk) sv")
  have "P (fst (snd r))"
    using processBuffer_preserves [of P sv parse "buffer @ textChunk", OF h l] Cons.prems bsv pb
    by simp
  then show ?case
    using Cons.IH [of r] bsv pb by (cases c) simp_all
qed

lemma handleMessages_preserves:
  assumes h: "\<And>data s v. P s \<Longrightarrow> P (fst (snd (handleData data (s, v))))"
    and l: "\<And>m s. P s \<Longrightarrow> P (console_error m s)"
  shows "P s \<Longrightarrow> P (handleMessages parse stream s)"
  unfolding handleMessages_def
  using readStream_preserves [of P "([], s, init_vars)" parse stream, OF h l] by simp

lemma handleMessages_requests: "requests (handleMessages parse stream s) = requests s"
  using handleMessages_preserves [of "\<lambda>t. requests t = requests s" s parse stream]
  by (simp add: handleData_requests console_error_def)

lemma handleMessages_orchestrationInitialized:
  "orchestrationInitialized (handleMessages parse stream s) = orchestrationInitialized s"
  using handleMessages_preserves
    [of "\<lambda>t. orchestrationInitialized t = orchestrationInitialized s" s parse stream]
  by (simp add: handleData_orchestrationInitialized console_error_def)

section \<open>Sending\<close>

lemma useOrchestration_fst:
  "fst (useOrchestration statusReply s)
     = (isOrchestrationMode s \<and> (orchestrationInitialized s \<or> reports_initialized statusReply))"
  by (auto simp: useOrchestration_def reports_initialized_def Let_def
      split: status_reply.splits option.splits)

lemma useOrchestration_requests:
  "requests (snd (useOrchestration statusReply s))
     = requests s @ (if isOrchestrationMode s \<and> \<not> orchestrationInitialized s
                     then [GET ''/orchestration/status''] else [])"
  by (auto simp: useOrchestration_def console_error_def Let_def
      split: status_reply.splits option.splits)

lemma useOrchestration_initialized:
  "orchestrationInitialized (snd (useOrchestration statusReply s))
     = (orchestrationInitialized s \<or> isOrchestrationMode s \<and> reports_initialized statusReply)"
  by (auto simp: useOrchestration_def reports_initialized_def console_error_def Let_def
      split: status_reply.splits option.splits)

lemma useOrchestration_transcript:
  "store (snd (useOrchestration statusReply s)) = store s
   \<and> messageList (snd (useOrchestration statusReply s)) = messageList s"
  by (auto simp: useOrchestration_def console_error_def Let_def
      split: status_reply.splits option.splits)

lemma pushItem_frame:
  "requests (snd (pushItem item s)) = requests s"
  "orchestrationInitialized (snd (pushItem item s)) = orchestrationInitialized s"
  "isOrchestrationMode (snd (pushItem item s)) = isOrchestrationMode s"
  by (simp_all add: pushItem_def)

lemma console_error_frame:
  "requests (console_error m s) = requests s"
  "orchestrationInitialized (console_error m s) = orchestrationInitialized s"
  "store (console_error m s) = store s"
  "messageList (console_error m s) = messageList s"
  by (simp_all add: console_error_def)

lemma startAgentThinkingPolling_frame:
  "requests (startAgentThinkingPolling s) = requests s"
  "orchestrationInitialized (startAgentThinkingPolling s) = orchestrationInitialized s"
  "store (startAgentThinkingPolling s) = store s"
  "messageList (startAgentThinkingPolling s) = messageList s"
  by (simp_all add: startAgentThinkingPolling_def)

lemma stopAgentThinkingPolling_frame:
  "requests (stopAgentThinkingPolling s) = requests s"
  "orchestrationInitialized (stopAgentThinkingPolling s) = orchestrationInitialized s"
  "store (stopAgentThinkingPolling s) = store s"
  "messageList (stopAgentThinkingPolling s) = messageList s"
  by (simp_all add: stopAgentThinkingPolling_def Let_def split: option.splits)

lemma stopRespondingAndPolling_frame:
  "requests (stopRespondingAndPolling s) = requests s"
  "orchestrationInitialized (stopRespondingAndPolling s) = orchestrationInitialized s"
  "store (stopRespondingAndPolling s) = store s"
  "messageList (stopRespondingAndPolling s) = messageList s"
  by (simp_all add: stopRespondingAndPolling_def stopAgentThinkingPolling_frame)

lemma onSend_catch_frame:
  "requests (onSend_catch abort s) = requests s"
  "orchestrationInitialized (onSend_catch abort s) = orchestrationInitialized s"
  "store (onSend_catch abort s) = store s"
  "messageList (onSend_catch abort s) = messageList s"
  by (simp_all add: onSend_catch_def Let_def console_error_frame stopRespondingAndPolling_frame)

lemmas send_frame = pushItem_frame console_error_frame startAgentThinkingPolling_frame
  stopRespondingAndPolling_frame onSend_catch_frame handleMessages_requests
  handleMessages_orchestrationInitialized

lemma onSend_requests:
  "requests (onSend parse statusReply chatReply message s)
     = requests s
       @ (if isOrchestrationMode s \<and> \<not> orchestrationInitialized s
          then [GET ''/orchestration/status''] else [])
       @ [if isOrchestrationMode s \<and> (orchestrationInitialized s \<or> reports_initialized statusReply)
          then POST ''/orchestration/chat'' (QueryBody message)
          else POST ''/chat'' (MessageBody message)]"
proof -
  let ?s0 = "snd (pushItem (userMessage message s) (s\<lparr>fresh := fresh s + 1\<rparr>))"
  obtain u s1 where us: "useOrchestration statusReply ?s0 = (u, s1)"
    by (cases "useOrchestration statusReply ?s0")
  have u: "u = (isOrchestrationMode s \<and> (orchestrationInitialized s \<or> reports_initialized statusReply))"
    using useOrchestration_fst [of statusReply ?s0] us by (simp add: send_frame)
  have r: "requests s1 = requests s
       @ (if isOrchestrationMode s \<and> \<not> orchestrationInitialized s
          then [GET ''/orchestration/status''] else [])"
    using useOrchestration_requests [of statusReply ?s0] us by (simp add: send_frame)
  let ?s2 = "s1\<lparr>isResponding := True\<rparr>"
  let ?s3 = "if u \<and> showAgentThinking ?s2 then startAgentThinkingPolling ?s2 else ?s2"
  have r3: "requests ?s3 = requests s1" by (simp add: send_frame)
  let ?post = "if u then POST ''/orchestration/chat'' (QueryBody message)
               else POST ''/chat'' (MessageBody message)"
  have "requests (onSend parse statusReply chatReply message s) = requests ?s3 @ [?post]"
    unfolding onSend_def Let_def us prod.case
    by (simp add: send_frame split: chat_reply.splits option.splits)
  then have "requests (onSend parse statusReply chatReply message s) = requests s1 @ [?post]"
    by (simp only: r3)
  then show ?thesis by (simp add: r u)
qed

lemma onSend_orchestrationInitialized:
  "orchestrationInitialized (onSend parse statusReply chatReply message s)
     = (orchestrationInitialized s \<or> isOrchestrationMode s \<and> reports_initialized statusReply)"
proof -
  let ?s0 = "snd (pushItem (userMessage message s) (s\<lparr>fresh := fresh s + 1\<rparr>))"
  obtain u s1 where us: "useOrchestration statusReply ?s0 = (u, s1)"
    by (cases "useOrchestration statusReply ?s0")
  have r: "orchestrationInitialized s1
             = (orchestrationInitialized s \<or> isOrchestrationMode s \<and> reports_initialized statusReply)"
    using useOrchestration_initialized [of statusReply ?s0] us by (simp add: send_frame)
  let ?s2 = "s1\<lparr>isResponding := True\<rparr>"
  let ?s3 = "if u \<and> showAgentThinking ?s2 then startAgentThinkingPolling ?s2 else ?s2"
  have r3: "orchestrationInitialized ?s3 = orchestrationInitialized s1" by (simp add: send_frame)
  have "orchestrationInitialized (onSend parse statusReply chatReply message s)
          = orchestrationInitialized ?s3"
    unfolding onSend_def Let_def us prod.case
    by (simp add: send_frame split: chat_reply.splits option.splits)
  then have "orchestrationInitialized (onSend parse statusReply chatReply message s)
               = orchestrationInitialized s1"
    by (simp only: r3)
  then show ?thesis by (simp add: r)
qed

section \<open>Render closures and the functions of the current render\<close>

text \<open>
  Run by the render of the state it starts in and not interrupted, a send is \<^const>\<open>onSend\<close>.
\<close>

lemma startAgentThinkingPolling_of_snapshot:
  "startAgentThinkingPolling_of (snapshot s) s = startAgentThinkingPolling s"
  by (simp add: startAgentThinkingPolling_of_def startAgentThinkingPolling_def snapshot_def)

lemma onSend_status_snapshot:
  "onSend_status (snapshot t) statusReply
     (if isOrchestrationMode t \<and> \<not> orchestrationInitialized t
      then t\<lparr>requests := requests t @ [GET ''/orchestration/status'']\<rparr> else t)
     = useOrchestration statusReply t"
  by (cases "isOrchestrationMode t"; cases "orchestrationInitialized t")
     (simp_all add: onSend_status_def useOrchestration_def snapshot_def Let_def
        split: status_reply.splits option.splits)

lemma useOrchestration_flags:
  "showAgentThinking (snd (useOrchestration statusReply s)) = showAgentThinking s"
  "isOrchestrationMode (snd (useOrchestration statusReply s)) = isOrchestrationMode s"
  "isPollingThinking (snd (useOrchestration statusReply s)) = isPollingThinking s"
  by (simp_all add: useOrchestration_def console_error_def Let_def
      split: status_reply.splits option.splits)

lemma onSend_begin_snapshot:
  "onSend_begin (snapshot s) message s
     = (let s0 = snd (pushItem (userMessage message s) (s\<lparr>fresh := fresh s + 1\<rparr>))
        in if isOrchestrationMode s0 \<and> \<not> orchestrationInitialized s0
           then s0\<lparr>requests := requests s0 @ [GET ''/orchestration/status'']\<rparr> else s0)"
  by (simp add: onSend_begin_def snapshot_def pushItem_def Let_def)

lemma snapshot_pushItem:
  "snapshot (snd (pushItem item (s\<lparr>fresh := n\<rparr>))) = snapshot s"
  by (simp add: snapshot_def pushItem_def)

lemma onSend_of_snapshot:
  "onSend_of parse (snapshot s) statusReply chatReply message s
     = onSend parse statusReply chatReply message s"
proof -
  let ?s0 = "snd (pushItem (userMessage message s) (s\<lparr>fresh := fresh s + 1\<rparr>))"
  obtain u s1 where us: "useOrchestration statusReply ?s0 = (u, s1)"
    by (cases "useOrchestration statusReply ?s0")
  have st: "onSend_status (snapshot s) statusReply (onSend_begin (snapshot s) message s) = (u, s1)"
    unfolding onSend_begin_snapshot Let_def
    using onSend_status_snapshot [of ?s0 statusReply] us
    by (simp only: snapshot_pushItem)
  have f: "showAgentThinking s1 = showAgentThinking s" "isOrchestrationMode s1 = isOrchestrationMode s"
    "isPollingThinking s1 = isPollingThinking s"
    using useOrchestration_flags [of statusReply ?s0] us by (simp_all add: pushItem_def)
  let ?s2 = "s1\<lparr>isResponding := True\<rparr>"
  have sn: "snapshot ?s2 = (snapshot s)\<lparr>r_orchestrationInitialized := orchestrationInitialized s1\<rparr>"
    by (simp add: snapshot_def f)
  have sp: "startAgentThinkingPolling_of (snapshot s) ?s2 = startAgentThinkingPolling ?s2"
    by (simp add: startAgentThinkingPolling_of_def startAgentThinkingPolling_def snapshot_def f)
  have sh: "r_showAgentThinking (snapshot s) = showAgentThinking ?s2"
    by (simp add: snapshot_def f)
  show ?thesis
    unfolding onSend_of_def onSend_dispatch_def onSend_def Let_def st us prod.case sp sh
      onSend_settle_def
    by simp
qed

section \<open>Transport failures\<close>

lemma onSend_failure_state:
  assumes "transport_failure chatReply"
  shows "store (onSend parse statusReply chatReply message s) = store s @ [userMessage message s]"
    and "messageList (onSend parse statusReply chatReply message s)
           = messageList s @ [length (store s)]"
proof -
  let ?s0 = "snd (pushItem (userMessage message s) (s\<lparr>fresh := fresh s + 1\<rparr>))"
  obtain u s1 where us: "useOrchestration statusReply ?s0 = (u, s1)"
    by (cases "useOrchestration statusReply ?s0")
  have r: "store s1 = store ?s0" "messageList s1 = messageList ?s0"
    using useOrchestration_transcript [of statusReply ?s0] us by simp_all
  have r0: "store (snd (pushItem item t)) = store t @ [item]"
    "messageList (snd (pushItem item t)) = messageList t @ [length (store t)]" for item t
    by (simp_all add: pushItem_def)
  let ?s2 = "s1\<lparr>isResponding := True\<rparr>"
  let ?s3 = "if u \<and> showAgentThinking ?s2 then startAgentThinkingPolling ?s2 else ?s2"
  have r3: "store ?s3 = store s1" "messageList ?s3 = messageList s1"
    by (simp_all add: send_frame)
  have "store (onSend parse statusReply chatReply message s) = store ?s3"
    and "messageList (onSend parse statusReply chatReply message s) = messageList ?s3"
    using assms unfolding onSend_def Let_def us prod.case
    by (simp_all add: send_frame transport_failure_def split: chat_reply.splits)
  then have "store (onSend parse statusReply chatReply message s) = store s1"
    and "messageList (onSend parse statusReply chatReply message s) = messageList s1"
    by (simp_all only: r3)
  then show "store (onSend parse statusReply chatReply message s) = store s @ [userMessage message s]"
    and "messageList (onSend parse statusReply chatReply message s)
           = messageList s @ [length (store s)]"
    by (simp_all add: r r0)
qed

lemma onSend_failure_logged:
  "\<not> resp_ok response \<Longrightarrow>
     console_errors (onSend parse statusReply (ChatResponse response) message s) \<noteq> []
     \<and> last (console_errors (onSend parse statusReply (ChatResponse response) message s))
         = ''[ChatClient] Response not OK:''"
  "console_errors (onSend parse statusReply (ChatRejected False) message s) \<noteq> []
   \<and> last (console_errors (onSend parse statusReply (ChatRejected False) message s))
       = ''[ChatClient] Fetch failed:''"
  by (simp_all add: onSend_def Let_def console_error_def onSend_catch_def split: prod.splits)

text \<open>
  Claim C4, as the code has it.  When the chat request fails in transport (the fetch
  rejects, or the response is not \<^verbatim>\<open>ok\<close>), \<^verbatim>\<open>onSend\<close> appends nothing after the user turn:
  the transcript is the old one and the user turn.  One request was posted, so nothing is
  retried, and unless the fetch was aborted the failure is the last thing logged with
  \<^verbatim>\<open>console.error\<close>.
\<close>

theorem transport_failure_appends_no_turn:
  assumes "refs_ok s" and "transport_failure chatReply"
  shows "transcript (onSend parse statusReply chatReply message s)
           = transcript s @ [userMessage message s]
         \<and> length (filter is_POST (requests (onSend parse statusReply chatReply message s)))
             = Suc (length (filter is_POST (requests s)))
         \<and> (chatReply \<noteq> ChatRejected True \<longrightarrow>
               console_errors (onSend parse statusReply chatReply message s) \<noteq> []
               \<and> last (console_errors (onSend parse statusReply chatReply message s))
                   = (case chatReply of
                        ChatRejected abort \<Rightarrow> ''[ChatClient] Fetch failed:''
                      | ChatResponse response \<Rightarrow> ''[ChatClient] Response not OK:''))"
proof (intro conjI impI)
  let ?s' = "onSend parse statusReply chatReply message s"
  have old: "(store s @ [userMessage message s]) ! r = store s ! r" if "r \<in> set (messageList s)" for r
    using that assms(1) by (simp add: refs_ok_def list_all_iff nth_append)
  show "transcript ?s' = transcript s @ [userMessage message s]"
    using old by (simp add: transcript_def onSend_failure_state [OF assms(2)])
  show "length (filter is_POST (requests ?s')) = Suc (length (filter is_POST (requests s)))"
    by (simp add: onSend_requests)
  assume "chatReply \<noteq> ChatRejected True"
  with assms(2) show "console_errors ?s' \<noteq> []"
    and "last (console_errors ?s')
           = (case chatReply of
                ChatRejected abort \<Rightarrow> ''[ChatClient] Fetch failed:''
              | ChatResponse response \<Rightarrow> ''[ChatClient] Response not OK:'')"
    using onSend_failure_logged
    by (auto simp: transport_failure_def split: chat_reply.splits)
qed


theorem transport_failure_appends_no_turn_witness:
  "refs_ok init_state
   \<and> transport_failure (ChatResponse \<lparr>resp_ok = False, resp_json = None, resp_body = None\<rparr>)
   \<and> ChatResponse \<lparr>resp_ok = False, resp_json = None, resp_body = None\<rparr> \<noteq> ChatRejected True
   \<and> transcript (onSend demo_parse StatusRejected
        (ChatResponse \<lparr>resp_ok = False, resp_json = None, resp_body = None\<rparr>) ''hi'' init_state)
       = [\<lparr>item_id = UserId 0, content = ''hi'', role = Some ''user'', isAnswer = False\<rparr>]
   \<and> length (filter is_POST (requests (onSend demo_parse StatusRejected
        (ChatResponse \<lparr>resp_ok = False, resp_json = None, resp_body = None\<rparr>) ''hi'' init_state)))
       = 1
   \<and> last (console_errors (onSend demo_parse StatusRejected
        (ChatResponse \<lparr>resp_ok = False, resp_json = None, resp_body = None\<rparr>) ''hi'' init_state))
       = ''[ChatClient] Response not OK:''"
proof -
  let ?c = "ChatResponse \<lparr>resp_ok = False, resp_json = None, resp_body = None\<rparr>"
  have h1: "refs_ok init_state" by (simp add: refs_ok_def init_state_def)
  have h2: "transport_failure ?c" by (simp add: transport_failure_def)
  have h3: "?c \<noteq> ChatRejected True" by simp
  have t: "transcript init_state = []" "requests init_state = []"
    by (simp_all add: transcript_def init_state_def)
  have u: "userMessage ''hi'' init_state
             = \<lparr>item_id = UserId 0, content = ''hi'', role = Some ''user'', isAnswer = False\<rparr>"
    by (simp add: userMessage_def init_state_def)
  show ?thesis
    using transport_failure_appends_no_turn [OF h1 h2, of demo_parse StatusRejected "''hi''"]
      h1 h2 h3 t u
    by simp
qed

text \<open>
  Claim C4 as the specification words it asks for an assistant turn that carries the
  error.  After a response that is not \<^verbatim>\<open>ok\<close> the transcript holds the user turn alone,
  on the streaming path and on the orchestration path.
\<close>

theorem transport_failure_error_turn_counterexample:
  "map (\<lambda>i. (role i, content i))
     (transcript (onSend demo_parse StatusRejected
        (ChatResponse \<lparr>resp_ok = False, resp_json = None, resp_body = None\<rparr>) ''hi'' init_state))
     = [(Some ''user'', ''hi'')]
   \<and> map (\<lambda>i. (role i, content i))
     (transcript (onSend demo_parse StatusRejected
        (ChatResponse \<lparr>resp_ok = False, resp_json = None, resp_body = None\<rparr>) ''hi''
        (init_state\<lparr>isOrchestrationMode := True, orchestrationInitialized := True\<rparr>)))
     = [(Some ''user'', ''hi'')]"
  by code_simp

section \<open>Requests to the orchestration chat endpoint\<close>

text \<open>
  Claim C9, as the code has it.  A request that \<^verbatim>\<open>onSend\<close> posts to
  \<^verbatim>\<open>/orchestration/chat\<close> carries \<^verbatim>\<open>{ query: message }\<close>.  The request that
  \<^verbatim>\<open>processOrchestrationQuery\<close> of the orchestration panel posts to the same endpoint
  carries \<^verbatim>\<open>{ message: message }\<close>; it posts one when the message is not blank and the
  orchestration is initialized, and none otherwise.
\<close>

theorem orchestration_chat_request_bodies:
  "(POST ''/orchestration/chat'' b
      \<in> set (drop (length (requests s))
                (requests (onSend parse statusReply chatReply message s)))
    \<longrightarrow> b = QueryBody message)
   \<and> panel_requests (processOrchestrationQuery reply p)
       = panel_requests p
         @ (if trim (panel_message p) \<noteq> [] \<and> orchestrationStatus p = Some ''initialized''
            then [POST ''/orchestration/chat'' (MessageBody (panel_message p))] else [])"
  by (auto simp: onSend_requests processOrchestrationQuery_def Let_def
      split: panel_reply.splits if_splits)

theorem orchestration_chat_request_bodies_witness:
  "POST ''/orchestration/chat'' (QueryBody ''hi'')
     \<in> set (drop (length (requests
                 (init_state\<lparr>isOrchestrationMode := True, orchestrationInitialized := True\<rparr>)))
          (requests (onSend demo_parse StatusRejected
             (ChatResponse \<lparr>resp_ok = True,
                resp_json = Some \<lparr>or_status = ''success'', or_result = Some ''done'', or_error = None\<rparr>,
                resp_body = None\<rparr>)
             ''hi'' (init_state\<lparr>isOrchestrationMode := True, orchestrationInitialized := True\<rparr>))))
   \<and> QueryBody ''hi'' = QueryBody ''hi''
   \<and> panel_requests (processOrchestrationQuery (PanelOk ''done'' 3)
        \<lparr>panel_message = ''hi'', orchestrationStatus = Some ''initialized'',
         orchestrationResult = [], isProcessing = False, panel_error = [], panel_success = [],
         panel_requests = []\<rparr>)
       = [POST ''/orchestration/chat'' (MessageBody ''hi'')]"
proof -
  let ?s = "init_state\<lparr>isOrchestrationMode := True, orchestrationInitialized := True\<rparr>"
  let ?c = "ChatResponse \<lparr>resp_ok = True,
                resp_json = Some \<lparr>or_status = ''success'', or_result = Some ''done'', or_error = None\<rparr>,
                resp_body = None\<rparr>"
  let ?p = "\<lparr>panel_message = ''hi'', orchestrationStatus = Some ''initialized'',
         orchestrationResult = [], isProcessing = False, panel_error = [], panel_success = [],
         panel_requests = []\<rparr>"
  have m: "POST ''/orchestration/chat'' (QueryBody ''hi'')
     \<in> set (drop (length (requests ?s)) (requests (onSend demo_parse StatusRejected ?c ''hi'' ?s)))"
    by code_simp
  have t: "trim (panel_message ?p) \<noteq> [] \<and> orchestrationStatus ?p = Some ''initialized''"
    by code_simp
  show ?thesis
    using orchestration_chat_request_bodies
      [of "QueryBody ''hi''" ?s demo_parse StatusRejected ?c "''hi''" "PanelOk ''done'' 3" ?p] m t
    by simp
qed

text \<open>
  Claim C9 as the specification words it covers every request of the client.  The panel's
  request for the message \<open>hi\<close> has the body \<^verbatim>\<open>{ message: "hi" }\<close>, which is not
  \<^verbatim>\<open>{ query: "hi" }\<close>.
\<close>

theorem orchestration_panel_body_counterexample:
  "panel_requests (processOrchestrationQuery (PanelOk ''done'' 3)
        \<lparr>panel_message = ''hi'', orchestrationStatus = Some ''initialized'',
         orchestrationResult = [], isProcessing = False, panel_error = [], panel_success = [],
         panel_requests = []\<rparr>)
     = [POST ''/orchestration/chat'' (MessageBody ''hi'')]
   \<and> MessageBody ''hi'' \<noteq> QueryBody ''hi''"
  by code_simp

section \<open>After the end marker\<close>

text \<open>The end marker itself stops the poller and leaves the transcript as it is.\<close>

lemma handleData_stream_end:
  "ev_error data = None \<Longrightarrow> ev_type data = Some ''stream_end'' \<Longrightarrow>
     handleData data (s, v) = (Break, stopRespondingAndPolling s, v)"
  by (simp add: handleData_def)

lemma stopRespondingAndPolling_stops:
  "\<not> isPollingThinking (stopRespondingAndPolling s)
   \<and> agentThinkingInterval (stopRespondingAndPolling s) = None
   \<and> \<not> isResponding (stopRespondingAndPolling s)
   \<and> transcript (stopRespondingAndPolling s) = transcript s"
  by (simp add: stopRespondingAndPolling_def stopAgentThinkingPolling_def Let_def transcript_def
      split: option.splits)

text \<open>
  Claim C3.  The \<^verbatim>\<open>break\<close> at a \<^verbatim>\<open>stream_end\<close> event leaves the loop over the lines of the
  buffer, and the loop over the chunks reads on.  For a stream that delivers \<open>Hi\<close>, the end
  marker and nothing more, the turn shows \<open>Hi\<close>; when one more record follows the end
  marker, that record is handled too and the turn shows \<open>Hilate\<close>.
\<close>

theorem stream_end_does_not_stop_reading:
  \<open>map content (transcript (handleMessages demo_parse
      [''data: {"type":"delta","content":"Hi"}'' @ nl,
       ''data: {"type":"stream_end"}'' @ nl]
      init_state)) = [''Hi'']
   \<and> map content (transcript (handleMessages demo_parse
      [''data: {"type":"delta","content":"Hi"}'' @ nl,
       ''data: {"type":"stream_end"}'' @ nl,
       ''data: {"type":"delta","content":"late"}'' @ nl]
      init_state)) = [''Hilate'']\<close>
  by code_simp

section \<open>The poller when a request settles\<close>

lemma onSend_rejected_stops_poller:
  "\<not> isPollingThinking (onSend parse statusReply (ChatRejected abort) message s)
   \<and> agentThinkingInterval (onSend parse statusReply (ChatRejected abort) message s) = None"
  by (simp add: onSend_def Let_def onSend_catch_def console_error_def
      stopRespondingAndPolling_stops split: prod.splits)

text \<open>
  Claim C6.  With orchestration initialized and the thinking display on, \<^verbatim>\<open>onSend\<close> starts
  the poller; when the response is not \<^verbatim>\<open>ok\<close> it returns without
  \<^verbatim>\<open>stopRespondingAndPolling\<close>, so the flag stays on, the interval timer keeps running and
  the component still counts as responding.  When the fetch rejects, the \<^verbatim>\<open>catch\<close> block
  stops the timer.
\<close>

theorem non_ok_response_leaves_poller_running:
  "isPollingThinking (onSend demo_parse StatusRejected
      (ChatResponse \<lparr>resp_ok = False, resp_json = None, resp_body = None\<rparr>) ''hi''
      (init_state\<lparr>isOrchestrationMode := True, orchestrationInitialized := True,
         showAgentThinking := True\<rparr>))
   \<and> timers (onSend demo_parse StatusRejected
      (ChatResponse \<lparr>resp_ok = False, resp_json = None, resp_body = None\<rparr>) ''hi''
      (init_state\<lparr>isOrchestrationMode := True, orchestrationInitialized := True,
         showAgentThinking := True\<rparr>)) = [1]
   \<and> isResponding (onSend demo_parse StatusRejected
      (ChatResponse \<lparr>resp_ok = False, resp_json = None, resp_body = None\<rparr>) ''hi''
      (init_state\<lparr>isOrchestrationMode := True, orchestrationInitialized := True,
         showAgentThinking := True\<rparr>))
   \<and> timers (onSend demo_parse StatusRejected (ChatRejected False) ''hi''
      (init_state\<lparr>isOrchestrationMode := True, orchestrationInitialized := True,
         showAgentThinking := True\<rparr>)) = []"
  by code_simp

section \<open>Revalidating a stale cache\<close>

text \<open>
  What a send asks of the server is decided by the render that runs it: it asks for the
  status exactly when that render saw orchestration on and not initialized, and it posts
  to the orchestration endpoint exactly when that render saw orchestration on and either
  saw it initialized or is told so by the status reply.
\<close>

lemma onSend_status_fst:
  "fst (onSend_status r statusReply s)
     = (r_isOrchestrationMode r
        \<and> (r_orchestrationInitialized r \<or> reports_initialized statusReply))"
  by (cases "r_isOrchestrationMode r"; cases "r_orchestrationInitialized r")
     (simp_all add: onSend_status_def reports_initialized_def
        split: status_reply.splits option.splits)

lemma onSend_status_requests:
  "requests (snd (onSend_status r statusReply s)) = requests s"
  by (simp add: onSend_status_def console_error_def split: status_reply.splits option.splits)

lemma startAgentThinkingPolling_of_requests:
  "requests (startAgentThinkingPolling_of r s) = requests s"
  by (simp add: startAgentThinkingPolling_of_def)

lemma onSend_settle_requests:
  "requests (onSend_settle parse u chatReply s) = requests s"
  by (simp add: onSend_settle_def send_frame split: chat_reply.splits option.splits)

lemma onSend_of_requests:
  "requests (onSend_of parse r statusReply chatReply message s)
     = requests s
       @ (if r_isOrchestrationMode r \<and> \<not> r_orchestrationInitialized r
          then [GET ''/orchestration/status''] else [])
       @ [if r_isOrchestrationMode r
             \<and> (r_orchestrationInitialized r \<or> reports_initialized statusReply)
          then POST ''/orchestration/chat'' (QueryBody message)
          else POST ''/chat'' (MessageBody message)]"
proof -
  let ?b = "onSend_begin r message s"
  obtain u s1 where st: "onSend_status r statusReply ?b = (u, s1)"
    by (cases "onSend_status r statusReply ?b")
  have u: "u = (r_isOrchestrationMode r
        \<and> (r_orchestrationInitialized r \<or> reports_initialized statusReply))"
    using onSend_status_fst [of r statusReply ?b] st by simp
  have b: "requests ?b = requests s
       @ (if r_isOrchestrationMode r \<and> \<not> r_orchestrationInitialized r
          then [GET ''/orchestration/status''] else [])"
    by (simp add: onSend_begin_def Let_def send_frame)
  have r1: "requests s1 = requests ?b"
    using onSend_status_requests [of r statusReply ?b] st by simp
  have "requests (onSend_of parse r statusReply chatReply message s)
          = requests s1 @ [if u then POST ''/orchestration/chat'' (QueryBody message)
                           else POST ''/chat'' (MessageBody message)]"
    unfolding onSend_of_def onSend_dispatch_def Let_def st prod.case
    by (simp add: onSend_settle_requests startAgentThinkingPolling_of_requests)
  then show ?thesis by (simp add: r1 b u)
qed

text \<open>
  Claim C5.  In the first session the component is in orchestrated mode with the cached
  flag off, and the status endpoint would report an initialized orchestration; but the
  chat context still holds the \<^verbatim>\<open>onSend\<close> of the mount, which saw orchestration off.  The
  send makes no status request, posts \<^verbatim>\<open>{ message: "hi" }\<close> to \<^verbatim>\<open>/chat\<close> and leaves the
  cached flag off.
\<close>

theorem send_after_mode_switch_skips_revalidation:
  "isOrchestrationMode switched_on
   \<and> \<not> orchestrationInitialized switched_on
   \<and> held_stale = snapshot init_state
   \<and> reports_initialized status_initialized
   \<and> requests (onSend_of demo_parse held_stale status_initialized (stream_reply [end_marker])
        ''hi'' switched_on)
       = requests switched_on @ [POST ''/chat'' (MessageBody ''hi'')]
   \<and> \<not> orchestrationInitialized
        (onSend_of demo_parse held_stale status_initialized (stream_reply [end_marker])
           ''hi'' switched_on)"
  by code_simp

section \<open>Timers of the poller\<close>

text \<open>
  A start whose render saw the poller running does nothing, and a second stop in a row
  does nothing.
\<close>

lemma poller_seen_running:
  "r_isPollingThinking r \<Longrightarrow> startAgentThinkingPolling_of r s = s"
  "stopAgentThinkingPolling (stopAgentThinkingPolling s) = stopAgentThinkingPolling s"
  by (simp_all add: startAgentThinkingPolling_of_def stopAgentThinkingPolling_def Let_def
      split: option.splits)

text \<open>
  Claim C8.  In the second session the send of \<open>two\<close> starts the poller with timer 1.  The
  send of \<open>three\<close> began before that, in a render that saw no poller; when its status reply
  arrives the poller is running, and its start sets a second timer and overwrites the
  handle.  Two timers run at once; the stops that follow clear timer 2 only, and timer 1
  runs on with the flag off and the handle empty.
\<close>

theorem overlapping_sends_start_two_timers:
  "held_one = snapshot one_done
   \<and> \<not> isResponding one_done
   \<and> \<not> r_isPollingThinking held_two
   \<and> isPollingThinking (snd two_posted)
   \<and> timers (snd two_posted) = [1]
   \<and> timers (snd three_posted) = [1, 2]
   \<and> agentThinkingInterval (snd three_posted) = Some 2
   \<and> timers three_done = [1]
   \<and> agentThinkingInterval three_done = None
   \<and> \<not> isPollingThinking three_done"
  by code_simp

end
